theory Spec2Isabelle
  imports Complex_Main
begin

section \<open>Data model of the contract performance tab\<close>

text \<open>
  The star-rating logic lives in the \<^verbatim>\<open>ContractTab\<close> component of the stars page
  (\<^verbatim>\<open>src/unnamed/part_000\<close>). A TypeScript \<^verbatim>\<open>number\<close> is modelled as a real: every
  number the component sees is decoded from a JSON response or parsed from a numeric input
  field, so it is never NaN, and on such numbers \<^verbatim>\<open>>=\<close> and \<^verbatim>\<open><=\<close> are the usual
  linear order. Where the program computes, each operation is rounded to a double.
  \<^verbatim>\<open>T | null\<close> is \<open>T option\<close>. A \<^verbatim>\<open>Record<string, T>\<close> is a map of the entries the
  object holds itself, \<open>None\<close> for a key it does not hold.
\<close>

type_synonym number = real

record ContractYearlyData =
  "value" :: "number option"
  measure_id :: string
  star_rating :: "number option"
  weight :: "number option"

record ContractBandPosition =
  year :: number
  star_rating :: number
  position :: "string option"

record ContractCutpoints =
  cut_2 :: "number option"
  cut_3 :: "number option"
  cut_4 :: "number option"
  cut_5 :: "number option"

record ContractMeasureRow =
  measure_id :: string
  measure_key :: string
  measure_name :: string
  part :: string
  lower_is_better :: bool
  weight :: number
  in_2026 :: bool
  yearly :: "string \<rightharpoonup> ContractYearlyData option"
  latest_band :: "ContractBandPosition option"
  cutpoints :: "ContractCutpoints option"

record ContractPerformanceData =
  contract_id :: string
  parent_org :: "string option"
  years :: "number list"
  measures :: "ContractMeasureRow list"
  weighted_avg_star :: "number option"
  total_weight :: number
  yearly_weighted_avgs :: "(number \<rightharpoonup> number option) option"
  error :: "string option"

text \<open>
  The entries of the component state \<^verbatim>\<open>simValues: Record<string, number | null>\<close>:
  \<open>None\<close> is a key never written, \<open>Some None\<close> an input field that was cleared,
  \<open>Some (Some v)\<close> an entered value.
\<close>

type_synonym simValues = "string \<rightharpoonup> number option"

section \<open>The classifier\<close>

text \<open>
  \<^verbatim>\<open>calcStarFromPerformance\<close>, lines 1171-1191. Each test
  \<^verbatim>\<open>cut_k !== null && value >= cut_k\<close> is a case on the threshold; the early returns are
  the branches of the conditional chain, in the source's order.
\<close>

definition calcStarFromPerformance :: "number \<Rightarrow> ContractCutpoints option \<Rightarrow> bool \<Rightarrow> number" where
  "calcStarFromPerformance val cutpts lowerIsBetter =
     (case cutpts of
        None \<Rightarrow> 3
      | Some cp \<Rightarrow>
          (if lowerIsBetter then
             (if (case cut_5 cp of None \<Rightarrow> False | Some c5 \<Rightarrow> val \<le> c5) then 5
              else if (case cut_4 cp of None \<Rightarrow> False | Some c4 \<Rightarrow> val \<le> c4) then 4
              else if (case cut_3 cp of None \<Rightarrow> False | Some c3 \<Rightarrow> val \<le> c3) then 3
              else if (case cut_2 cp of None \<Rightarrow> False | Some c2 \<Rightarrow> val \<le> c2) then 2
              else 1)
           else
             (if (case cut_5 cp of None \<Rightarrow> False | Some c5 \<Rightarrow> val \<ge> c5) then 5
              else if (case cut_4 cp of None \<Rightarrow> False | Some c4 \<Rightarrow> val \<ge> c4) then 4
              else if (case cut_3 cp of None \<Rightarrow> False | Some c3 \<Rightarrow> val \<ge> c3) then 3
              else if (case cut_2 cp of None \<Rightarrow> False | Some c2 \<Rightarrow> val \<ge> c2) then 2
              else 1)))"

text \<open>\<^verbatim>\<open>isOutsideBand\<close>, lines 1251-1255.\<close>

definition isOutsideBand :: "number \<Rightarrow> number \<Rightarrow> ContractCutpoints option \<Rightarrow> bool \<Rightarrow> bool" where
  "isOutsideBand val starRating cutpts lowerIsBetter =
     (case cutpts of
        None \<Rightarrow> False
      | Some cp \<Rightarrow>
          (let expectedStar = calcStarFromPerformance val (Some cp) lowerIsBetter
           in expectedStar \<noteq> starRating))"

section \<open>Reading the override state\<close>

text \<open>
  \<^verbatim>\<open>simValues[m.measure_key]\<close> reads a plain object. A key with an entry of its own
  yields that entry. A key without one yields the member of that name every plain object
  inherits, when there is one (a function, or for \<^verbatim>\<open>__proto__\<close> the prototype object), and
  \<^verbatim>\<open>undefined\<close> otherwise. The inherited names are those of ECMAScript's
  \<^verbatim>\<open>Object.prototype\<close>, legacy accessors included.
\<close>

datatype js_member = Undefined | Null | Num number | Inherited

definition Object_prototype_keys :: "string list" where
  "Object_prototype_keys =
     [''constructor'', ''hasOwnProperty'', ''isPrototypeOf'', ''propertyIsEnumerable'',
      ''toLocaleString'', ''toString'', ''valueOf'', ''__defineGetter__'',
      ''__defineSetter__'', ''__lookupGetter__'', ''__lookupSetter__'', ''__proto__'']"

definition simValues_get :: "simValues \<Rightarrow> string \<Rightarrow> js_member" where
  "simValues_get simVals key =
     (case simVals key of
        Some None \<Rightarrow> Null
      | Some (Some v) \<Rightarrow> Num v
      | None \<Rightarrow> if key \<in> set Object_prototype_keys then Inherited else Undefined)"

text \<open>
  \<^verbatim>\<open>calcStarFromPerformance\<close> called with an inherited member: a function or object
  converts to NaN in every comparison, so every comparison is false and the chain falls
  through; absent cutpoints still give the default.
\<close>

definition calcStarFromInherited :: "ContractCutpoints option \<Rightarrow> number" where
  "calcStarFromInherited cutpts = (case cutpts of None \<Rightarrow> 3 | Some cp \<Rightarrow> 1)"

section \<open>Double arithmetic\<close>

text \<open>
  The result of an arithmetic operation on doubles is the exact result rounded to the
  nearest double, a tie going to the even significand. \<open>f64_normalise\<close> scales a positive
  number into the range of 53-bit significands (stopping at the subnormal exponent),
  counting the exponent; the fuel covers the whole exponent range. Overflow to infinity is
  not modelled: it needs magnitudes of 2 to the 1024. The numbers the program starts from
  (weights, ratings, entered values) are doubles already.
\<close>

definition round_half_even :: "real \<Rightarrow> int" where
  "round_half_even x =
     (let f = \<lfloor>x\<rfloor>; r = x - of_int f
      in if r < 1 / 2 then f else if 1 / 2 < r then f + 1 else if even f then f else f + 1)"

fun f64_normalise :: "nat \<Rightarrow> real \<Rightarrow> int \<Rightarrow> real \<times> int" where
  "f64_normalise 0 x e = (x, e)"
| "f64_normalise (Suc n) x e =
     (if 2 ^ 53 \<le> x then f64_normalise n (x / 2) (e + 1)
      else if x < 2 ^ 52 \<and> - 1074 < e then f64_normalise n (x * 2) (e - 1)
      else (x, e))"

definition fl64 :: "real \<Rightarrow> real" where
  "fl64 x =
     (if x = 0 then 0
      else (case f64_normalise 2200 \<bar>x\<bar> 0 of
              (m, e) \<Rightarrow>
                sgn x * of_int (round_half_even m)
                  * (if 0 \<le> e then 2 ^ nat e else 1 / 2 ^ nat (- e))))"

section \<open>The simulated weighted average\<close>

text \<open>
  \<^verbatim>\<open>Math.round\<close> returns the nearest integer, a tie going towards plus infinity; on a
  double the result is exact.
\<close>

definition Math_round :: "number \<Rightarrow> number" where
  "Math_round x = of_int \<lfloor>x + 1 / 2\<rfloor>"

text \<open>
  The loop body of \<^verbatim>\<open>calcSimulatedWeightedAvg\<close> (lines 1201-1220) first chooses the
  \<^verbatim>\<open>star\<close> of a measure: the classified override when
  \<^verbatim>\<open>simVal !== undefined && simVal !== null\<close>, else the actual rating when
  \<^verbatim>\<open>m.latest_band?.star_rating\<close> is truthy (a number other than 0), else \<^verbatim>\<open>null\<close>.
\<close>

definition usesSimValue :: "simValues \<Rightarrow> ContractMeasureRow \<Rightarrow> bool" where
  "usesSimValue simVals m =
     (case simValues_get simVals (measure_key m) of
        Num simVal \<Rightarrow> True
      | Inherited \<Rightarrow> True
      | _ \<Rightarrow> False)"

definition simulatedStar :: "simValues \<Rightarrow> ContractMeasureRow \<Rightarrow> number option" where
  "simulatedStar simVals m =
     (case simValues_get simVals (measure_key m) of
        Num simVal \<Rightarrow>
          Some (calcStarFromPerformance simVal (cutpoints m) (lower_is_better m))
      | Inherited \<Rightarrow> Some (calcStarFromInherited (cutpoints m))
      | _ \<Rightarrow>
          (case latest_band m of
             None \<Rightarrow> None
           | Some band \<Rightarrow>
               if star_rating band \<noteq> 0 then Some (star_rating band) else None))"

record sim_acc =
  totalWeight :: number
  weightedSum :: number
  hasAnySimValue :: bool

text \<open>
  The arithmetic of the loop and of the final quotient takes as a parameter \<open>rnd\<close> how the
  result of an operation is stored: \<open>fl64\<close> is the program, the identity is the same
  function in exact arithmetic.
\<close>

definition sim_body :: "(number \<Rightarrow> number) \<Rightarrow> simValues \<Rightarrow> ContractMeasureRow \<Rightarrow> sim_acc \<Rightarrow> sim_acc" where
  "sim_body rnd simVals m acc =
     (if \<not> in_2026 m then acc
      else
        (let acc1 = (if usesSimValue simVals m then acc\<lparr>hasAnySimValue := True\<rparr> else acc)
         in case simulatedStar simVals m of
              None \<Rightarrow> acc1
            | Some star \<Rightarrow>
                acc1\<lparr>totalWeight := rnd (totalWeight acc1 + weight m),
                     weightedSum := rnd (weightedSum acc1 + rnd (star * weight m))\<rparr>))"

fun sim_loop :: "(number \<Rightarrow> number) \<Rightarrow> simValues \<Rightarrow> ContractMeasureRow list \<Rightarrow> sim_acc \<Rightarrow> sim_acc" where
  "sim_loop rnd simVals [] acc = acc"
| "sim_loop rnd simVals (m # ms) acc = sim_loop rnd simVals ms (sim_body rnd simVals m acc)"

text \<open>
  \<^verbatim>\<open>calcSimulatedWeightedAvg\<close>, lines 1194-1225. \<^verbatim>\<open>contractData\<close> is undefined while
  the query is loading, which is \<open>None\<close> here; \<^verbatim>\<open>measures\<close> is an array and so never
  falsy.
\<close>

definition calcSimulatedWeightedAvg_with ::
  "(number \<Rightarrow> number) \<Rightarrow> ContractPerformanceData option \<Rightarrow> simValues \<Rightarrow> number option" where
  "calcSimulatedWeightedAvg_with rnd contractData simVals =
     (case contractData of
        None \<Rightarrow> None
      | Some cd \<Rightarrow>
          (let acc = sim_loop rnd simVals (measures cd)
                       \<lparr>totalWeight = 0, weightedSum = 0, hasAnySimValue = False\<rparr>
           in if \<not> hasAnySimValue acc then None
              else if totalWeight acc > 0
                then Some (rnd (Math_round (rnd (rnd (weightedSum acc / totalWeight acc) * 100))
                                 / 100))
                else None))"

text \<open>
  The function in double arithmetic, as the program runs it, and in exact arithmetic.
  The exact reading serves the properties that are about which measures count and when
  the result is null.
\<close>

definition calcSimulatedWeightedAvg_f64 :: "ContractPerformanceData option \<Rightarrow> simValues \<Rightarrow> number option" where
  "calcSimulatedWeightedAvg_f64 = calcSimulatedWeightedAvg_with fl64"

definition calcSimulatedWeightedAvg :: "ContractPerformanceData option \<Rightarrow> simValues \<Rightarrow> number option" where
  "calcSimulatedWeightedAvg = calcSimulatedWeightedAvg_with (\<lambda>x. x)"

text \<open>
  The overall row (lines 1398-1424) rounds a weighted average to the half star with
  \<^verbatim>\<open>Math.round(avg * 2) / 2\<close>, once per year column on the average the server sent and
  once on the simulated average. Doubling, rounding to an integer and halving are exact on
  doubles.
\<close>

definition halfStar :: "number \<Rightarrow> number" where
  "halfStar avg = Math_round (avg * 2) / 2"

definition yearHalfStar :: "ContractPerformanceData \<Rightarrow> number \<Rightarrow> number option" where
  "yearHalfStar cd yr =
     (case yearly_weighted_avgs cd of
        None \<Rightarrow> None
      | Some avgs \<Rightarrow> (case avgs yr of Some (Some avg) \<Rightarrow> Some (halfStar avg) | _ \<Rightarrow> None))"


section \<open>The simulated star of one row\<close>

text \<open>
  The output cell of a measure row, lines 1564-1591. A dash is rendered when the measure is
  not active, has no cutpoints, or has no entered value (\<open>None\<close> here); otherwise the
  simulated star, and an arrow with the original star when
  \<^verbatim>\<open>origStar && simStar !== origStar\<close>.
\<close>

record sim_cell =
  simStar :: number
  changed :: bool

definition simOutputCell :: "ContractMeasureRow \<Rightarrow> simValues \<Rightarrow> sim_cell option" where
  "simOutputCell row simVals =
     (if in_2026 row \<and> cutpoints row \<noteq> None then
        (let simVal = simValues_get simVals (measure_key row)
         in if simVal = Undefined \<or> simVal = Null then None
            else
              (let star = (case simVal of
                             Num v \<Rightarrow> calcStarFromPerformance v (cutpoints row) (lower_is_better row)
                           | _ \<Rightarrow> calcStarFromInherited (cutpoints row))
               in Some \<lparr>simStar = star,
                        changed = (case latest_band row of
                                     None \<Rightarrow> False
                                   | Some band \<Rightarrow>
                                       star_rating band \<noteq> 0 \<and> star \<noteq> star_rating band)\<rparr>))
      else None)"

text \<open>
  The value a row shows for a year, \<^verbatim>\<open>measure.yearly[String(year)]?.value\<close>, with the
  key already a string; \<^verbatim>\<open>null\<close> and \<^verbatim>\<open>undefined\<close> are both rendered as no value. An
  inherited member has no \<^verbatim>\<open>value\<close>, so a key without an entry of its own gives no value
  whatever its name.
\<close>

definition yearlyValue :: "ContractMeasureRow \<Rightarrow> string \<Rightarrow> number option" where
  "yearlyValue row key =
     (case yearly row key of Some (Some yd) \<Rightarrow> ContractYearlyData.value yd | _ \<Rightarrow> None)"

section \<open>Notions for stating the properties\<close>

text \<open>
  The (rating, weight) pair a measure contributes to the two sums, if it contributes at
  all, and the list of these pairs in loop order.
\<close>

definition ratedEntry :: "simValues \<Rightarrow> ContractMeasureRow \<Rightarrow> (number \<times> number) option" where
  "ratedEntry simVals m =
     (if in_2026 m then map_option (\<lambda>star. (star, weight m)) (simulatedStar simVals m) else None)"

definition ratedEntries :: "simValues \<Rightarrow> ContractMeasureRow list \<Rightarrow> (number \<times> number) list" where
  "ratedEntries simVals ms = List.map_filter (ratedEntry simVals) ms"

text \<open>
  The two sums as the loop accumulates them over a list of entries, left to right, each
  operation stored through \<open>rnd\<close>.
\<close>

definition accumWeight :: "(number \<Rightarrow> number) \<Rightarrow> (number \<times> number) list \<Rightarrow> number" where
  "accumWeight rnd es = foldl (\<lambda>t e. rnd (t + snd e)) 0 es"

definition accumWeighted :: "(number \<Rightarrow> number) \<Rightarrow> (number \<times> number) list \<Rightarrow> number" where
  "accumWeighted rnd es = foldl (\<lambda>t e. rnd (t + rnd (fst e * snd e))) 0 es"

text \<open>
  Rounding to the nearest integer with ties away from zero, as the specification words the
  half-star rule.
\<close>

definition round_half_away_from_zero :: "number \<Rightarrow> number" where
  "round_half_away_from_zero x = sgn x * of_int \<lfloor>\<bar>x\<bar> + 1 / 2\<rfloor>"

section \<open>The scenario of the specification as data\<close>

text \<open>
  The cutpoints of the end-to-end scenario (higher is better, 60 / 70 / 80 / 90), a row
  builder over them, and a contract holding given rows. A row has a key, a weight, an
  optional actual star rating (its latest band) and an optional actual value for 2026.
\<close>

definition scenario_cutpoints :: ContractCutpoints where
  "scenario_cutpoints = \<lparr>cut_2 = Some 60, cut_3 = Some 70, cut_4 = Some 80, cut_5 = Some 90\<rparr>"

definition scenario_row :: "string \<Rightarrow> number \<Rightarrow> number option \<Rightarrow> number option \<Rightarrow> ContractMeasureRow" where
  "scenario_row key w actualStar actualValue =
     \<lparr>measure_id = ''C01'', measure_key = key, measure_name = ''Measure M'', part = ''C'',
      lower_is_better = False, weight = w, in_2026 = True,
      yearly = (case actualValue of
                  None \<Rightarrow> Map.empty
                | Some v \<Rightarrow>
                    [''2026'' \<mapsto> Some \<lparr>value = Some v, measure_id = ''C01'',
                                          star_rating = actualStar, weight = Some w\<rparr>]),
      latest_band = map_option (\<lambda>s. \<lparr>year = 2026, star_rating = s, position = None\<rparr>) actualStar,
      cutpoints = Some scenario_cutpoints\<rparr>"

definition scenario_contract :: "ContractMeasureRow list \<Rightarrow> ContractPerformanceData" where
  "scenario_contract rows =
     \<lparr>contract_id = ''H5216'', parent_org = None, years = [2026], measures = rows,
      weighted_avg_star = None, total_weight = 0, yearly_weighted_avgs = None, error = None\<rparr>"

section \<open>The classifier: thresholds, defaults, monotonicity\<close>

text \<open>
  Claim C3. When no cutpoints are available at all (the argument is \<^verbatim>\<open>null\<close>), the
  classifier returns the fixed rating 3 for every value and either direction. The function
  has no failing branch, so nothing is thrown.
\<close>

theorem calcStar_missing_cutpoints:
  "calcStarFromPerformance val None lowerIsBetter = 3"
  by (simp add: calcStarFromPerformance_def)

text \<open>
  Claim C10. A cutpoints object whose four thresholds are all \<^verbatim>\<open>null\<close> gives rating 1
  for every value in both directions; the default 3 is what an absent object gives.
\<close>

theorem calcStar_all_null_thresholds:
  "calcStarFromPerformance val
     (Some \<lparr>cut_2 = None, cut_3 = None, cut_4 = None, cut_5 = None\<rparr>) lowerIsBetter = 1
   \<and> calcStarFromPerformance val None lowerIsBetter = 3"
  by (simp add: calcStarFromPerformance_def)

text \<open>
  A test \<^verbatim>\<open>cut_k !== null && ...\<close> holds exactly when the threshold is present and
  reached, which turns the classifier into a plain chain over four conditions.
\<close>

lemma case_threshold_iff:
  "(case t of None \<Rightarrow> False | Some c \<Rightarrow> P c) = (\<exists>c. t = Some c \<and> P c)"
  by (cases t) simp_all

lemma calcStar_higher_chain:
  "calcStarFromPerformance val (Some cp) False =
     (if (\<exists>c. cut_5 cp = Some c \<and> val \<ge> c) then 5
      else if (\<exists>c. cut_4 cp = Some c \<and> val \<ge> c) then 4
      else if (\<exists>c. cut_3 cp = Some c \<and> val \<ge> c) then 3
      else if (\<exists>c. cut_2 cp = Some c \<and> val \<ge> c) then 2
      else 1)"
  unfolding calcStarFromPerformance_def case_threshold_iff by simp

lemma calcStar_lower_chain:
  "calcStarFromPerformance val (Some cp) True =
     (if (\<exists>c. cut_5 cp = Some c \<and> val \<le> c) then 5
      else if (\<exists>c. cut_4 cp = Some c \<and> val \<le> c) then 4
      else if (\<exists>c. cut_3 cp = Some c \<and> val \<le> c) then 3
      else if (\<exists>c. cut_2 cp = Some c \<and> val \<le> c) then 2
      else 1)"
  unfolding calcStarFromPerformance_def case_threshold_iff by simp

text \<open>
  Claim C1. With a cutpoints object supplied, the classifier examines the thresholds from
  the top down: higher-is-better compares with \<open>\<ge>\<close>, lower-is-better with \<open>\<le>\<close>, in the
  order 5, 4, 3, 2, and the rating is 1 when no threshold is reached. A null threshold is
  never reached. A value equal to a threshold earns at least that threshold's rating, and
  a value equal to \<open>cut_5\<close> earns 5 in both directions.
\<close>

theorem calcStar_top_down_inclusive:
  "calcStarFromPerformance val (Some cp) False =
     (if (\<exists>c. cut_5 cp = Some c \<and> val \<ge> c) then 5
      else if (\<exists>c. cut_4 cp = Some c \<and> val \<ge> c) then 4
      else if (\<exists>c. cut_3 cp = Some c \<and> val \<ge> c) then 3
      else if (\<exists>c. cut_2 cp = Some c \<and> val \<ge> c) then 2
      else 1)
   \<and> calcStarFromPerformance val (Some cp) True =
     (if (\<exists>c. cut_5 cp = Some c \<and> val \<le> c) then 5
      else if (\<exists>c. cut_4 cp = Some c \<and> val \<le> c) then 4
      else if (\<exists>c. cut_3 cp = Some c \<and> val \<le> c) then 3
      else if (\<exists>c. cut_2 cp = Some c \<and> val \<le> c) then 2
      else 1)
   \<and> (cut_5 cp = Some val \<longrightarrow> calcStarFromPerformance val (Some cp) lowerIsBetter = 5)
   \<and> (cut_4 cp = Some val \<longrightarrow> calcStarFromPerformance val (Some cp) lowerIsBetter \<ge> 4)
   \<and> (cut_3 cp = Some val \<longrightarrow> calcStarFromPerformance val (Some cp) lowerIsBetter \<ge> 3)
   \<and> (cut_2 cp = Some val \<longrightarrow> calcStarFromPerformance val (Some cp) lowerIsBetter \<ge> 2)"
proof -
  have b5: "cut_5 cp = Some val \<longrightarrow> calcStarFromPerformance val (Some cp) lowerIsBetter = 5"
    by (cases lowerIsBetter) (simp_all add: calcStar_higher_chain calcStar_lower_chain)
  have b4: "cut_4 cp = Some val \<longrightarrow> calcStarFromPerformance val (Some cp) lowerIsBetter \<ge> 4"
    by (cases lowerIsBetter) (simp_all add: calcStar_higher_chain calcStar_lower_chain)
  have b3: "cut_3 cp = Some val \<longrightarrow> calcStarFromPerformance val (Some cp) lowerIsBetter \<ge> 3"
    by (cases lowerIsBetter) (simp_all add: calcStar_higher_chain calcStar_lower_chain)
  have b2: "cut_2 cp = Some val \<longrightarrow> calcStarFromPerformance val (Some cp) lowerIsBetter \<ge> 2"
    by (cases lowerIsBetter) (simp_all add: calcStar_higher_chain calcStar_lower_chain)
  from calcStar_higher_chain calcStar_lower_chain b5 b4 b3 b2 show ?thesis by blast
qed

text \<open>
  The scenario cutpoints at each of their own thresholds, higher is better, and the
  readmission thresholds of the source comment (at most 7 for five stars) at 7, lower is
  better.
\<close>

theorem calcStar_top_down_inclusive_witness:
  "calcStarFromPerformance 90 (Some scenario_cutpoints) False = 5
   \<and> calcStarFromPerformance 80 (Some scenario_cutpoints) False = 4
   \<and> calcStarFromPerformance 70 (Some scenario_cutpoints) False = 3
   \<and> calcStarFromPerformance 60 (Some scenario_cutpoints) False = 2
   \<and> calcStarFromPerformance 59 (Some scenario_cutpoints) False = 1
   \<and> calcStarFromPerformance 7
        (Some \<lparr>cut_2 = Some 12, cut_3 = Some 10, cut_4 = Some 9, cut_5 = Some 7\<rparr>) True = 5"
  using calcStar_top_down_inclusive [of 90 scenario_cutpoints False]
    calcStar_top_down_inclusive [of 80 scenario_cutpoints False]
    calcStar_top_down_inclusive [of 70 scenario_cutpoints False]
    calcStar_top_down_inclusive [of 60 scenario_cutpoints False]
    calcStar_top_down_inclusive [of 59 scenario_cutpoints False]
    calcStar_top_down_inclusive
      [of 7 "\<lparr>cut_2 = Some 12, cut_3 = Some 10, cut_4 = Some 9, cut_5 = Some 7\<rparr>" True]
  by (simp add: scenario_cutpoints_def)

text \<open>A chain of four conditions is monotone in its conditions.\<close>

lemma chain_mono:
  fixes a5 a4 a3 a2 b5 b4 b3 b2 :: bool
  assumes "a5 \<longrightarrow> b5" "a4 \<longrightarrow> b4" "a3 \<longrightarrow> b3" "a2 \<longrightarrow> b2"
  shows "(if a5 then 5 else if a4 then 4 else if a3 then 3 else if a2 then 2 else (1::real))
       \<le> (if b5 then 5 else if b4 then 4 else if b3 then 3 else if b2 then 2 else 1)"
  using assms by auto

text \<open>
  Claim C6. For fixed cutpoints (present or absent, ordered or not) the classifier is
  monotone: non-decreasing in the value when higher is better, non-increasing when lower
  is better.
\<close>

theorem calcStar_monotone:
  assumes "v1 \<le> v2"
  shows "calcStarFromPerformance v1 cutpts False \<le> calcStarFromPerformance v2 cutpts False
       \<and> calcStarFromPerformance v1 cutpts True \<ge> calcStarFromPerformance v2 cutpts True"
proof (cases cutpts)
  case None
  then show ?thesis by (simp add: calcStarFromPerformance_def)
next
  case (Some cp)
  have hi: "calcStarFromPerformance v1 (Some cp) False \<le> calcStarFromPerformance v2 (Some cp) False"
    unfolding calcStar_higher_chain
    by (rule chain_mono) (use assms in auto)
  have lo: "calcStarFromPerformance v2 (Some cp) True \<le> calcStarFromPerformance v1 (Some cp) True"
    unfolding calcStar_lower_chain
    by (rule chain_mono) (use assms in auto)
  from hi lo Some show ?thesis by simp
qed

theorem calcStar_monotone_witness:
  "(75::real) \<le> 85
   \<and> calcStarFromPerformance 75 (Some scenario_cutpoints) False = 3
   \<and> calcStarFromPerformance 85 (Some scenario_cutpoints) False = 4
   \<and> calcStarFromPerformance 75 (Some scenario_cutpoints) False
       \<le> calcStarFromPerformance 85 (Some scenario_cutpoints) False
   \<and> calcStarFromPerformance 75 (Some scenario_cutpoints) True
       \<ge> calcStarFromPerformance 85 (Some scenario_cutpoints) True"
proof -
  have h: "(75::real) \<le> 85" by simp
  have e: "calcStarFromPerformance 75 (Some scenario_cutpoints) False = 3
     \<and> calcStarFromPerformance 85 (Some scenario_cutpoints) False = 4"
    by (simp add: calcStarFromPerformance_def scenario_cutpoints_def)
  from h e calcStar_monotone [OF h, of "Some scenario_cutpoints"] show ?thesis by blast
qed

text \<open>
  Claim C9. With a cutpoints object supplied, the adjustment flag is true exactly when the
  classifier's rating of the value differs from the assigned rating. In the scenario,
  value 88 with assigned rating 5 is flagged.
\<close>

theorem isOutsideBand_iff_natural_rating_differs:
  "isOutsideBand val starRating (Some cp) lowerIsBetter
     = (calcStarFromPerformance val (Some cp) lowerIsBetter \<noteq> starRating)
   \<and> isOutsideBand 88 5
        (Some \<lparr>cut_2 = Some 60, cut_3 = Some 70, cut_4 = Some 80, cut_5 = Some 90\<rparr>) False"
  by (simp add: isOutsideBand_def calcStarFromPerformance_def)

text \<open>Without a cutpoints object nothing is flagged, whatever the assigned rating.\<close>

lemma isOutsideBand_missing_cutpoints: "\<not> isOutsideBand val starRating None lowerIsBetter"
  by (simp add: isOutsideBand_def)

section \<open>The loop of the simulated weighted average\<close>

text \<open>
  A measure with an override always has a star; a key that names no inherited member is
  an override exactly when a value was entered for it; a measure that contributes no
  entry leaves the accumulators as they are; a measure that contributes \<open>(s, w)\<close> adds
  \<open>w\<close> and \<open>s * w\<close>.
\<close>

lemma usesSimValue_star: "usesSimValue sv m \<Longrightarrow> simulatedStar sv m \<noteq> None"
  by (auto simp: usesSimValue_def simulatedStar_def split: js_member.splits)

lemma usesSimValue_own:
  "measure_key m \<notin> set Object_prototype_keys \<Longrightarrow>
   usesSimValue sv m = (\<exists>v. sv (measure_key m) = Some (Some v))"
  by (auto simp: usesSimValue_def simValues_get_def split: option.splits)

lemma sim_body_skip: "ratedEntry sv m = None \<Longrightarrow> sim_body rnd sv m acc = acc"
  using usesSimValue_star [of sv m]
  by (auto simp: ratedEntry_def sim_body_def split: if_splits)

lemma sim_body_count:
  "ratedEntry sv m = Some (s, w) \<Longrightarrow>
   sim_body rnd sv m acc =
     acc\<lparr>totalWeight := rnd (totalWeight acc + w),
         weightedSum := rnd (weightedSum acc + rnd (s * w)),
         hasAnySimValue := hasAnySimValue acc \<or> usesSimValue sv m\<rparr>"
  by (auto simp: ratedEntry_def sim_body_def Let_def split: if_splits)

lemma ratedEntries_Nil: "ratedEntries sv [] = []"
  by (simp add: ratedEntries_def List.map_filter_simps)

lemma ratedEntries_Cons:
  "ratedEntries sv (m # ms) =
     (case ratedEntry sv m of None \<Rightarrow> ratedEntries sv ms | Some e \<Rightarrow> e # ratedEntries sv ms)"
  unfolding ratedEntries_def by (simp add: List.map_filter_simps)

lemma ratedEntries_append:
  "ratedEntries sv (xs @ ys) = ratedEntries sv xs @ ratedEntries sv ys"
  by (induction xs) (simp_all add: ratedEntries_Nil ratedEntries_Cons split: option.splits)

lemma ratedEntries_weights:
  "(\<Sum>e\<leftarrow>ratedEntries sv ms. snd e)
     = (\<Sum>m\<leftarrow>filter (\<lambda>m. in_2026 m \<and> simulatedStar sv m \<noteq> None) ms. weight m)"
  by (induction ms)
    (auto simp: ratedEntries_Nil ratedEntries_Cons ratedEntry_def split: option.splits)

text \<open>
  The loop, by induction on the measures with the accumulator generalised: it folds the
  weights and the weighted ratings of the entries into the two sums, and raises the flag
  when an active measure has an override.
\<close>

lemma sim_loop_fold:
  "sim_loop rnd sv ms acc =
     acc\<lparr>totalWeight := foldl (\<lambda>t e. rnd (t + snd e)) (totalWeight acc) (ratedEntries sv ms),
         weightedSum :=
           foldl (\<lambda>t e. rnd (t + rnd (fst e * snd e))) (weightedSum acc) (ratedEntries sv ms),
         hasAnySimValue := hasAnySimValue acc \<or> (\<exists>m\<in>set ms. in_2026 m \<and> usesSimValue sv m)\<rparr>"
proof (induction ms arbitrary: acc)
  case Nil
  show ?case by (simp add: ratedEntries_Nil)
next
  case (Cons m ms)
  show ?case
  proof (cases "ratedEntry sv m")
    case None
    then have "in_2026 m \<longrightarrow> \<not> usesSimValue sv m"
      using usesSimValue_star [of sv m] by (auto simp: ratedEntry_def split: if_splits)
    with None show ?thesis
      by (auto simp: Cons.IH sim_body_skip ratedEntries_Cons)
  next
    case (Some e)
    obtain s w where e: "e = (s, w)" by (cases e)
    have "in_2026 m" using Some by (auto simp: ratedEntry_def split: if_splits)
    with Some e show ?thesis
      by (auto simp: Cons.IH sim_body_count ratedEntries_Cons)
  qed
qed

lemma calcSim_with_eq:
  "calcSimulatedWeightedAvg_with rnd (Some cd) sv =
     (if \<not> (\<exists>m\<in>set (measures cd). in_2026 m \<and> usesSimValue sv m) then None
      else if accumWeight rnd (ratedEntries sv (measures cd)) > 0
        then Some (rnd (Math_round (rnd (rnd (accumWeighted rnd (ratedEntries sv (measures cd))
                                               / accumWeight rnd (ratedEntries sv (measures cd)))
                                          * 100)) / 100))
        else None)"
  by (simp add: calcSimulatedWeightedAvg_with_def sim_loop_fold Let_def accumWeight_def
      accumWeighted_def)

text \<open>In exact arithmetic the folds are the sums.\<close>

lemma foldl_exact_sum: "foldl (\<lambda>t e. t + f e) (a::real) es = a + (\<Sum>e\<leftarrow>es. f e)"
  by (induction es arbitrary: a) simp_all

lemma accumWeight_exact: "accumWeight (\<lambda>x. x) es = (\<Sum>e\<leftarrow>es. snd e)"
  by (simp add: accumWeight_def foldl_exact_sum)

lemma accumWeighted_exact: "accumWeighted (\<lambda>x. x) es = (\<Sum>e\<leftarrow>es. fst e * snd e)"
  by (simp add: accumWeighted_def foldl_exact_sum)

lemma calcSim_eq:
  "calcSimulatedWeightedAvg (Some cd) sv =
     (if \<not> (\<exists>m\<in>set (measures cd). in_2026 m \<and> usesSimValue sv m) then None
      else if (\<Sum>e\<leftarrow>ratedEntries sv (measures cd). snd e) > 0
        then Some (Math_round (((\<Sum>e\<leftarrow>ratedEntries sv (measures cd). fst e * snd e)
                                / (\<Sum>e\<leftarrow>ratedEntries sv (measures cd). snd e)) * 100) / 100)
        else None)"
  by (simp add: calcSimulatedWeightedAvg_def calcSim_with_eq accumWeight_exact
      accumWeighted_exact)

lemma calcSim_None: "calcSimulatedWeightedAvg None sv = None"
  by (simp add: calcSimulatedWeightedAvg_def calcSimulatedWeightedAvg_with_def)

lemma simulatedStar_weight_update:
  "simulatedStar sv (m\<lparr>weight := w\<rparr>) = simulatedStar sv m"
  by (simp add: simulatedStar_def cong: js_member.case_cong)

text \<open>Evaluation of double rounding on numerals, and of the model on the scenario data.\<close>

lemma f64_normalise_numeral:
  "f64_normalise (numeral k) x e =
     (if 2 ^ 53 \<le> x then f64_normalise (pred_numeral k) (x / 2) (e + 1)
      else if x < 2 ^ 52 \<and> - 1074 < e then f64_normalise (pred_numeral k) (x * 2) (e - 1)
      else (x, e))"
  by (simp add: numeral_eq_Suc)

lemmas fl64_eval = fl64_def f64_normalise_numeral round_half_even_def Let_def

lemmas scenario_eval =
  scenario_contract_def scenario_row_def scenario_cutpoints_def
  calcSimulatedWeightedAvg_def calcSimulatedWeightedAvg_f64_def calcSimulatedWeightedAvg_with_def
  sim_body_def usesSimValue_def simulatedStar_def simValues_get_def Object_prototype_keys_def
  calcStarFromPerformance_def calcStarFromInherited_def Math_round_def
  ratedEntries_def ratedEntry_def

section \<open>Half-star rounding\<close>





















text \<open>
  Beside the claim: on a negative tie \<^verbatim>\<open>Math.round\<close> goes up, not away from zero; and
  in double arithmetic the two-decimal score can differ from the exact one (ratings 5 and
  4 with weights 9 and 31: the double nearest 4.22, where exact arithmetic gives 4.23).
\<close>

lemma halfStar_negative_tie:
  "halfStar (- 1.25) = - 1 \<and> round_half_away_from_zero (- 1.25 * 2) / 2 = - 1.5"
  by (simp add: halfStar_def Math_round_def round_half_away_from_zero_def)

lemma two_decimal_score_in_doubles:
  "fl64 (Math_round (fl64 (fl64 (accumWeighted fl64 [(5, 9), (4, 31)]
       / accumWeight fl64 [(5, 9), (4, 31)]) * 100)) / 100) = fl64 4.22
   \<and> Math_round ((5 * 9 + 4 * 31) / (9 + 31) * 100) / 100 = (4.23::real)"
  by (simp add: accumWeight_def accumWeighted_def Math_round_def fl64_eval)

text \<open>
  The returned score depends on the order of the measures: with the doubles nearest 0.2
  and 0.3 as weights, the same three entries give the double nearest 1.38 in one order
  and the one nearest 1.37 in another.
\<close>

lemma two_decimal_score_depends_on_order:
  "fl64 (Math_round (fl64 (fl64
       (accumWeighted fl64 [(1, fl64 0.2), (1, fl64 0.3), (2, fl64 0.3)]
         / accumWeight fl64 [(1, fl64 0.2), (1, fl64 0.3), (2, fl64 0.3)]) * 100)) / 100)
     = fl64 1.38
   \<and> fl64 (Math_round (fl64 (fl64
       (accumWeighted fl64 [(1, fl64 0.3), (2, fl64 0.3), (1, fl64 0.2)]
         / accumWeight fl64 [(1, fl64 0.3), (2, fl64 0.3), (1, fl64 0.2)]) * 100)) / 100)
     = fl64 1.37"
  by (simp add: accumWeight_def accumWeighted_def Math_round_def fl64_eval)

section \<open>The aggregation: no weight, null ratings, no overrides\<close>

text \<open>
  Claim C4. When every active measure has a null star, or the weights of the measures
  with a star sum to zero, the simulated weighted average is null. The quotient is taken
  only when the weight sum is positive, so a returned score never comes from a division
  by zero; the function has no failing branch.
\<close>

theorem no_weight_no_score:
  "((\<forall>m\<in>set (measures cd). in_2026 m \<longrightarrow> simulatedStar sv m = None)
      \<or> (\<Sum>m\<leftarrow>filter (\<lambda>m. in_2026 m \<and> simulatedStar sv m \<noteq> None) (measures cd). weight m) = 0
     \<longrightarrow> calcSimulatedWeightedAvg (Some cd) sv = None)
   \<and> (calcSimulatedWeightedAvg (Some cd) sv = Some score \<longrightarrow>
        (\<Sum>m\<leftarrow>filter (\<lambda>m. in_2026 m \<and> simulatedStar sv m \<noteq> None) (measures cd). weight m) > 0)"
proof -
  have "filter (\<lambda>m. in_2026 m \<and> simulatedStar sv m \<noteq> None) (measures cd) = []"
    if "\<forall>m\<in>set (measures cd). in_2026 m \<longrightarrow> simulatedStar sv m = None"
    using that by (auto simp: filter_empty_conv)
  then show ?thesis
    by (auto simp: calcSim_eq ratedEntries_weights split: if_splits)
qed

text \<open>
  A contract whose only row has no rating and no override; a row of weight 0 with an
  override; and a row of weight 1 with an override, whose score is 4.
\<close>

theorem no_weight_no_score_witness:
  "calcSimulatedWeightedAvg (Some (scenario_contract [scenario_row ''A'' 1 None None])) Map.empty = None
   \<and> calcSimulatedWeightedAvg (Some (scenario_contract [scenario_row ''A'' 0 None None]))
        [''A'' \<mapsto> Some 85] = None
   \<and> calcSimulatedWeightedAvg (Some (scenario_contract [scenario_row ''A'' 1 None None]))
        [''A'' \<mapsto> Some 85] = Some 4
   \<and> (\<Sum>m\<leftarrow>filter (\<lambda>m. in_2026 m \<and> simulatedStar [''A'' \<mapsto> Some 85] m \<noteq> None)
          (measures (scenario_contract [scenario_row ''A'' 1 None None])). weight m) > 0"
proof -
  have h1: "\<forall>m\<in>set (measures (scenario_contract [scenario_row ''A'' 1 None None])).
      in_2026 m \<longrightarrow> simulatedStar Map.empty m = None"
    by (simp add: scenario_eval)
  have h2: "(\<Sum>m\<leftarrow>filter (\<lambda>m. in_2026 m \<and> simulatedStar [''A'' \<mapsto> Some 85] m \<noteq> None)
      (measures (scenario_contract [scenario_row ''A'' 0 None None])). weight m) = 0"
    by (simp add: scenario_eval)
  have h3: "calcSimulatedWeightedAvg (Some (scenario_contract [scenario_row ''A'' 1 None None]))
      [''A'' \<mapsto> Some 85] = Some 4"
    by (simp add: scenario_eval)
  show ?thesis
    using h1 h2 h3
      no_weight_no_score [of "scenario_contract [scenario_row ''A'' 1 None None]" Map.empty 4]
      no_weight_no_score [of "scenario_contract [scenario_row ''A'' 0 None None]" "[''A'' \<mapsto> Some 85]" 4]
      no_weight_no_score [of "scenario_contract [scenario_row ''A'' 1 None None]" "[''A'' \<mapsto> Some 85]" 4]
    by blast
qed

text \<open>
  Claim C5. A measure whose star is null (no override, no actual rating) is left out of
  both sums: inserting it anywhere among the measures, with any weight \<open>w\<close>, leaves the
  simulated weighted average as it is without it.
\<close>

theorem null_rating_entry_ignored:
  assumes "simulatedStar sv m = None"
  shows "calcSimulatedWeightedAvg (Some (cd\<lparr>measures := xs @ m\<lparr>weight := w\<rparr> # ys\<rparr>)) sv
       = calcSimulatedWeightedAvg (Some (cd\<lparr>measures := xs @ ys\<rparr>)) sv"
proof -
  have s: "simulatedStar sv (m\<lparr>weight := w\<rparr>) = None"
    using assms by (simp add: simulatedStar_weight_update)
  then have e: "ratedEntry sv (m\<lparr>weight := w\<rparr>) = None"
    by (simp add: ratedEntry_def)
  have u: "\<not> usesSimValue sv (m\<lparr>weight := w\<rparr>)"
    using s usesSimValue_star by blast
  have "ratedEntries sv (xs @ m\<lparr>weight := w\<rparr> # ys) = ratedEntries sv (xs @ ys)"
    by (simp add: ratedEntries_append ratedEntries_Cons e)
  moreover have "(\<exists>r\<in>set (xs @ m\<lparr>weight := w\<rparr> # ys). in_2026 r \<and> usesSimValue sv r)
      = (\<exists>r\<in>set (xs @ ys). in_2026 r \<and> usesSimValue sv r)"
    using u by auto
  ultimately show ?thesis
    by (simp add: calcSim_eq)
qed

text \<open>Row N has no rating and no override; with or without it the score is 4.5.\<close>

theorem null_rating_entry_ignored_witness:
  "simulatedStar [''A'' \<mapsto> Some 85] (scenario_row ''N'' 3 None None) = None
   \<and> calcSimulatedWeightedAvg
        (Some ((scenario_contract [])\<lparr>measures :=
           [scenario_row ''A'' 1 None None]
             @ (scenario_row ''N'' 3 None None)\<lparr>weight := 7\<rparr> # [scenario_row ''B'' 1 (Some 5) None]\<rparr>))
        [''A'' \<mapsto> Some 85] = Some 4.5
   \<and> calcSimulatedWeightedAvg
        (Some ((scenario_contract [])\<lparr>measures :=
           [scenario_row ''A'' 1 None None] @ [scenario_row ''B'' 1 (Some 5) None]\<rparr>))
        [''A'' \<mapsto> Some 85] = Some 4.5"
proof -
  have h: "simulatedStar [''A'' \<mapsto> Some 85] (scenario_row ''N'' 3 None None) = None"
    by (simp add: scenario_eval)
  have e: "calcSimulatedWeightedAvg
        (Some ((scenario_contract [])\<lparr>measures :=
           [scenario_row ''A'' 1 None None] @ [scenario_row ''B'' 1 (Some 5) None]\<rparr>))
        [''A'' \<mapsto> Some 85] = Some 4.5"
    by (simp add: scenario_eval)
  show ?thesis
    using h e
      null_rating_entry_ignored [OF h, where cd = "scenario_contract []" and xs = "[scenario_row ''A'' 1 None None]"
        and w = 7 and ys = "[scenario_row ''B'' 1 (Some 5) None]"]
    by simp
qed

text \<open>
  Claim C7, as amended. For contract data in which no measure key names an inherited
  member: with no override supplied (every key of the override state unset or cleared)
  the simulated weighted average is null; and it is a score exactly when an override is
  supplied for an active measure and the accumulated weight of the counted measures is
  positive. So a pass with such an override is told apart from no simulation even when
  its score equals the actual one, while overrides on inactive measures only, or on
  measures without positive weight, give null as well, as do contract data not yet
  loaded. This holds however results are stored, in double and in exact arithmetic.
\<close>

theorem simulation_reported_iff_counted_override:
  assumes "\<forall>m\<in>set (measures cd). measure_key m \<notin> set Object_prototype_keys"
  shows "((\<forall>k. sv k = None \<or> sv k = Some None) \<longrightarrow>
            calcSimulatedWeightedAvg_with rnd (Some cd) sv = None)
       \<and> (calcSimulatedWeightedAvg_with rnd (Some cd) sv \<noteq> None \<longleftrightarrow>
            (\<exists>m\<in>set (measures cd). in_2026 m \<and> (\<exists>v. sv (measure_key m) = Some (Some v)))
            \<and> 0 < accumWeight rnd (ratedEntries sv (measures cd)))
       \<and> calcSimulatedWeightedAvg_with rnd None sv = None"
proof -
  have u: "(\<exists>m\<in>set (measures cd). in_2026 m \<and> usesSimValue sv m)
      = (\<exists>m\<in>set (measures cd). in_2026 m \<and> (\<exists>v. sv (measure_key m) = Some (Some v)))"
    using assms by (auto simp: usesSimValue_own)
  have a: "(\<forall>k. sv k = None \<or> sv k = Some None) \<longrightarrow>
      calcSimulatedWeightedAvg_with rnd (Some cd) sv = None"
  proof
    assume h: "\<forall>k. sv k = None \<or> sv k = Some None"
    have "\<not> (\<exists>v. sv (measure_key m) = Some (Some v))" for m
      using h [rule_format, of "measure_key m"] by auto
    then have "\<not> (\<exists>m\<in>set (measures cd). in_2026 m
        \<and> (\<exists>v. sv (measure_key m) = Some (Some v)))"
      by blast
    then show "calcSimulatedWeightedAvg_with rnd (Some cd) sv = None"
      unfolding calcSim_with_eq u by simp
  qed
  have b: "calcSimulatedWeightedAvg_with rnd (Some cd) sv \<noteq> None \<longleftrightarrow>
      (\<exists>m\<in>set (measures cd). in_2026 m \<and> (\<exists>v. sv (measure_key m) = Some (Some v)))
      \<and> 0 < accumWeight rnd (ratedEntries sv (measures cd))"
    unfolding calcSim_with_eq u by simp
  have c: "calcSimulatedWeightedAvg_with rnd None sv = None"
    by (simp add: calcSimulatedWeightedAvg_with_def)
  from a b c show ?thesis by blast
qed

text \<open>
  Row A has actual rating 4 and actual value 85. Without an override, and with a cleared
  field, the program's result is null; with the override 85 it is the score 4, which
  equals the actual rating and is not null.
\<close>

theorem simulation_reported_iff_counted_override_witness:
  "calcSimulatedWeightedAvg_f64 (Some (scenario_contract [scenario_row ''A'' 1 (Some 4) (Some 85)]))
      Map.empty = None
   \<and> calcSimulatedWeightedAvg_f64 (Some (scenario_contract [scenario_row ''A'' 1 (Some 4) (Some 85)]))
      [''A'' \<mapsto> None] = None
   \<and> calcSimulatedWeightedAvg_f64 (Some (scenario_contract [scenario_row ''A'' 1 (Some 4) (Some 85)]))
      [''A'' \<mapsto> Some 85] \<noteq> None
   \<and> calcSimulatedWeightedAvg_f64 (Some (scenario_contract [scenario_row ''A'' 1 (Some 4) (Some 85)]))
      [''A'' \<mapsto> Some 85] = Some 4"
proof -
  let ?cd = "scenario_contract [scenario_row ''A'' 1 (Some 4) (Some 85)]"
  have k: "\<forall>m\<in>set (measures ?cd). measure_key m \<notin> set Object_prototype_keys"
    by (simp add: scenario_contract_def scenario_row_def Object_prototype_keys_def)
  have h1: "\<forall>k. (Map.empty :: simValues) k = None \<or> (Map.empty :: simValues) k = Some None"
    by simp
  have h2: "\<forall>k. [''A'' \<mapsto> None :: number option] k = None
      \<or> [''A'' \<mapsto> None :: number option] k = Some None"
    by simp
  have h3: "\<exists>m\<in>set (measures ?cd). in_2026 m
      \<and> (\<exists>v. [''A'' \<mapsto> Some (85::real)] (measure_key m) = Some (Some v))"
    by (simp add: scenario_contract_def scenario_row_def)
  have h4: "0 < accumWeight fl64 (ratedEntries [''A'' \<mapsto> Some 85] (measures ?cd))"
    by (simp add: scenario_eval accumWeight_def fl64_eval)
  have e: "calcSimulatedWeightedAvg_f64 (Some ?cd) [''A'' \<mapsto> Some 85] = Some 4"
    by (simp add: scenario_eval fl64_eval)
  have a: "calcSimulatedWeightedAvg_f64 (Some ?cd) Map.empty = None"
    using h1 simulation_reported_iff_counted_override
      [OF k, where sv = Map.empty and rnd = fl64]
    unfolding calcSimulatedWeightedAvg_f64_def by blast
  have b: "calcSimulatedWeightedAvg_f64 (Some ?cd) [''A'' \<mapsto> None] = None"
    using h2 simulation_reported_iff_counted_override
      [OF k, where sv = "[''A'' \<mapsto> None]" and rnd = fl64]
    unfolding calcSimulatedWeightedAvg_f64_def by blast
  have c: "calcSimulatedWeightedAvg_f64 (Some ?cd) [''A'' \<mapsto> Some 85] \<noteq> None"
    using h3 h4 simulation_reported_iff_counted_override
      [OF k, where sv = "[''A'' \<mapsto> Some 85]" and rnd = fl64]
    unfolding calcSimulatedWeightedAvg_f64_def by blast
  from a b c e show ?thesis by blast
qed

text \<open>
  Claim C7 as stated fails. A pass with an override on an active measure of weight 0
  returns null, the very outcome of a pass without overrides, and here also the actual
  result. And a measure whose key names an inherited member makes a pass with nothing
  entered return a score: the lookup finds the member, which counts as an override and
  is classified as one star.
\<close>

theorem override_pass_null_and_inherited_key_score:
  "calcSimulatedWeightedAvg_f64
      (Some (scenario_contract [scenario_row ''A'' 0 (Some 4) (Some 85)])) [''A'' \<mapsto> Some 85] = None
   \<and> calcSimulatedWeightedAvg_f64
      (Some (scenario_contract [scenario_row ''A'' 0 (Some 4) (Some 85)])) Map.empty = None
   \<and> weighted_avg_star (scenario_contract [scenario_row ''A'' 0 (Some 4) (Some 85)]) = None
   \<and> calcSimulatedWeightedAvg_f64
      (Some (scenario_contract [scenario_row ''constructor'' 1 None None])) Map.empty = Some 1"
  by (simp add: scenario_eval fl64_eval)

text \<open>
  The same properties of the aggregation hold of the program in double arithmetic, with
  the accumulated weight in place of the exact sum.
\<close>

lemma no_weight_no_score_f64:
  "((\<forall>m\<in>set (measures cd). in_2026 m \<longrightarrow> simulatedStar sv m = None)
      \<or> accumWeight fl64 (ratedEntries sv (measures cd)) = 0
     \<longrightarrow> calcSimulatedWeightedAvg_f64 (Some cd) sv = None)
   \<and> (calcSimulatedWeightedAvg_f64 (Some cd) sv = Some score \<longrightarrow>
        accumWeight fl64 (ratedEntries sv (measures cd)) > 0)"
proof -
  have "\<not> (\<exists>m\<in>set (measures cd). in_2026 m \<and> usesSimValue sv m)"
    if "\<forall>m\<in>set (measures cd). in_2026 m \<longrightarrow> simulatedStar sv m = None"
    using that usesSimValue_star by blast
  then show ?thesis
    by (auto simp: calcSimulatedWeightedAvg_f64_def calcSim_with_eq split: if_splits)
qed

lemma null_rating_entry_ignored_f64:
  assumes "simulatedStar sv m = None"
  shows "calcSimulatedWeightedAvg_f64 (Some (cd\<lparr>measures := xs @ m\<lparr>weight := w\<rparr> # ys\<rparr>)) sv
       = calcSimulatedWeightedAvg_f64 (Some (cd\<lparr>measures := xs @ ys\<rparr>)) sv"
proof -
  have s: "simulatedStar sv (m\<lparr>weight := w\<rparr>) = None"
    using assms by (simp add: simulatedStar_weight_update)
  then have e: "ratedEntry sv (m\<lparr>weight := w\<rparr>) = None"
    by (simp add: ratedEntry_def)
  have u: "\<not> usesSimValue sv (m\<lparr>weight := w\<rparr>)"
    using s usesSimValue_star by blast
  have "ratedEntries sv (xs @ m\<lparr>weight := w\<rparr> # ys) = ratedEntries sv (xs @ ys)"
    by (simp add: ratedEntries_append ratedEntries_Cons e)
  moreover have "(\<exists>r\<in>set (xs @ m\<lparr>weight := w\<rparr> # ys). in_2026 r \<and> usesSimValue sv r)
      = (\<exists>r\<in>set (xs @ ys). in_2026 r \<and> usesSimValue sv r)"
    using u by auto
  ultimately show ?thesis
    by (simp add: calcSimulatedWeightedAvg_f64_def calcSim_with_eq)
qed

section \<open>The simulated star of a row against its actual star\<close>

text \<open>
  Claim C8, as amended. For an active measure with cutpoints whose assigned rating is not
  flagged as adjusted for a value \<open>v\<close> (the classifier gives \<open>v\<close> the assigned rating), an
  override equal to \<open>v\<close>, in particular to the actual value, yields the assigned rating as
  the simulated star, and the cell shows no change.
\<close>

theorem override_of_unadjusted_value_keeps_rating:
  assumes "in_2026 row" "cutpoints row = Some cp" "latest_band row = Some band"
    and "sv (measure_key row) = Some (Some v)"
    and "\<not> isOutsideBand v (star_rating band) (Some cp) (lower_is_better row)"
  shows "simOutputCell row sv = Some \<lparr>simStar = star_rating band, changed = False\<rparr>"
  using assms by (simp add: simOutputCell_def isOutsideBand_def simValues_get_def)

text \<open>Actual value 88 with assigned rating 4, which is what the cutpoints give 88.\<close>

theorem override_of_unadjusted_value_keeps_rating_witness:
  "yearlyValue (scenario_row ''M'' 1 (Some 4) (Some 88)) ''2026'' = Some 88
   \<and> \<not> isOutsideBand 88 4 (Some scenario_cutpoints) False
   \<and> simOutputCell (scenario_row ''M'' 1 (Some 4) (Some 88)) [''M'' \<mapsto> Some 88]
       = Some \<lparr>simStar = 4, changed = False\<rparr>"
proof -
  let ?row = "scenario_row ''M'' 1 (Some 4) (Some 88)"
  let ?band = "\<lparr>year = 2026, star_rating = 4, position = None\<rparr>"
  have y: "yearlyValue ?row ''2026'' = Some 88"
    by (simp add: yearlyValue_def scenario_row_def)
  have h1: "in_2026 ?row" by (simp add: scenario_row_def)
  have h2: "cutpoints ?row = Some scenario_cutpoints" by (simp add: scenario_row_def)
  have h3: "latest_band ?row = Some ?band" by (simp add: scenario_row_def)
  have h4: "[''M'' \<mapsto> Some 88] (measure_key ?row) = Some (Some (88::real))"
    by (simp add: scenario_row_def)
  have h5: "\<not> isOutsideBand 88 (star_rating ?band) (Some scenario_cutpoints) (lower_is_better ?row)"
    by (simp add: isOutsideBand_def calcStarFromPerformance_def scenario_cutpoints_def scenario_row_def)
  from override_of_unadjusted_value_keeps_rating [where row = ?row and cp = scenario_cutpoints and band = ?band
      and sv = "[''M'' \<mapsto> Some 88]" and v = 88, OF h1 h2 h3 h4 h5] y h5
  show ?thesis
    by (simp add: scenario_row_def)
qed

text \<open>
  Claim C8 as stated fails on an adjusted measure: actual value 88 with assigned rating 5.
  An override of 88 is classified as 4, and the cell reports a change from 5.
\<close>

theorem override_of_adjusted_value_changes_rating:
  "yearlyValue (scenario_row ''M'' 1 (Some 5) (Some 88)) ''2026'' = Some 88
   \<and> map_option star_rating (latest_band (scenario_row ''M'' 1 (Some 5) (Some 88))) = Some 5
   \<and> simOutputCell (scenario_row ''M'' 1 (Some 5) (Some 88)) [''M'' \<mapsto> Some 88]
       = Some \<lparr>simStar = 4, changed = True\<rparr>"
  by (simp add: yearlyValue_def scenario_row_def scenario_cutpoints_def simOutputCell_def
      simValues_get_def calcStarFromPerformance_def)

end
